theory Spec2Isabelle
  imports Complex_Main "HOL-Library.Sublist"
begin

section \<open>Python values, exceptions and observable effects\<close>

text \<open>
  The handlers of \<^verbatim>\<open>python_cloudevents_function.py\<close> work on decoded JSON: whatever
  \<^verbatim>\<open>json.loads\<close> can return, and the dictionaries the module builds from it. A dictionary
  is an association list read with \<open>map_of\<close> (keys are strings, as in JSON). A float is
  carried as a real number: the module only ever tests a float for being zero.
\<close>

datatype pyval =
    PNone
  | PBool bool
  | PInt int
  | PFloat real
  | PStr string
  | PList "pyval list"
  | PDict "(string \<times> pyval) list"

type_synonym dict = "(string \<times> pyval) list"

text \<open>The exceptions the module's own expressions can raise, and any other one.\<close>

datatype error = AttributeError | IndexError | KeyError | ValueError | OtherException string

text \<open>
  What a run leaves behind: the records handed to \<^verbatim>\<open>logger\<close> (level and the literal
  text of the message up to its first interpolated value) and the entry into each
  function that the module calls itself, in order.
\<close>

datatype level = INFO | WARNING | ERROR

datatype effect = Log level string | Enter string

type_synonym 'a run = "effect list \<times> (error + 'a)"

text \<open>Python's truth test, as \<^verbatim>\<open>if x:\<close> and \<^verbatim>\<open>if not x:\<close> apply it.\<close>

fun truthy :: "pyval \<Rightarrow> bool" where
  "truthy PNone = False"
| "truthy (PBool b) = b"
| "truthy (PInt i) = (i \<noteq> 0)"
| "truthy (PFloat r) = (r \<noteq> 0)"
| "truthy (PStr s) = (s \<noteq> [])"
| "truthy (PList xs) = (xs \<noteq> [])"
| "truthy (PDict kvs) = (kvs \<noteq> [])"

subsection \<open>Sequencing\<close>

text \<open>An exception ends the evaluation of an expression: the rest is skipped.\<close>

definition and_then :: "error + 'a \<Rightarrow> ('a \<Rightarrow> error + 'b) \<Rightarrow> error + 'b" where
  "and_then m f = (case m of Inl e \<Rightarrow> Inl e | Inr x \<Rightarrow> f x)"

text \<open>The same for statements, which also leave effects: those before the raise stay.\<close>

definition then_run :: "'a run \<Rightarrow> ('a \<Rightarrow> 'b run) \<Rightarrow> 'b run" where
  "then_run m f =
     (case m of
        (tr, Inl e) \<Rightarrow> (tr, Inl e)
      | (tr, Inr x) \<Rightarrow> (case f x of (tr', r) \<Rightarrow> (tr @ tr', r)))"

definition lift :: "error + 'a \<Rightarrow> 'a run" where
  "lift r = ([], r)"

definition emit :: "effect list \<Rightarrow> unit run" where
  "emit tr = (tr, Inr ())"

subsection \<open>Dictionary and string operations\<close>

text \<open>\<^verbatim>\<open>d.get(k, default)\<close> on a dictionary.\<close>

definition dict_get :: "dict \<Rightarrow> string \<Rightarrow> pyval \<Rightarrow> pyval" where
  "dict_get d k dflt = (case map_of d k of None \<Rightarrow> dflt | Some v \<Rightarrow> v)"

text \<open>
  \<^verbatim>\<open>x.get(k, default)\<close> on any value: only a dictionary has the method, on every other
  JSON value the attribute lookup raises.
\<close>

fun py_get :: "pyval \<Rightarrow> string \<Rightarrow> pyval \<Rightarrow> error + pyval" where
  "py_get (PDict d) k dflt = Inr (dict_get d k dflt)"
| "py_get _ k dflt = Inl AttributeError"

text \<open>\<^verbatim>\<open>d[k]\<close> and \<^verbatim>\<open>d[k] = v\<close>.\<close>

definition dict_item :: "dict \<Rightarrow> string \<Rightarrow> error + pyval" where
  "dict_item d k = (case map_of d k of None \<Rightarrow> Inl KeyError | Some v \<Rightarrow> Inr v)"

fun dict_set :: "dict \<Rightarrow> string \<Rightarrow> pyval \<Rightarrow> dict" where
  "dict_set [] k v = [(k, v)]"
| "dict_set ((k', v') # d) k v =
     (if k' = k then (k, v) # d else (k', v') # dict_set d k v)"

text \<open>
  \<^verbatim>\<open>s.split(sep)\<close> for a one-character separator: the pieces between the separators, so
  one piece more than there are separators (the empty string gives one empty piece).
\<close>

fun split :: "char \<Rightarrow> string \<Rightarrow> string list" where
  "split sep [] = [[]]"
| "split sep (c # cs) =
     (if c = sep then [] # split sep cs
      else (case split sep cs of
              [] \<Rightarrow> [[c]]
            | w # ws \<Rightarrow> (c # w) # ws))"

fun py_split :: "pyval \<Rightarrow> char \<Rightarrow> error + string list" where
  "py_split (PStr s) sep = Inr (split sep s)"
| "py_split _ sep = Inl AttributeError"

text \<open>
  \<^verbatim>\<open>xs[i]\<close> on a list of length n: positions 0 to n - 1 from the front, -1 down to -n
  from the back, \<^verbatim>\<open>IndexError\<close> for every other index.
\<close>

definition subscript :: "'a list \<Rightarrow> int \<Rightarrow> error + 'a" where
  "subscript xs i =
     (if 0 \<le> i \<and> i < int (length xs) then Inr (xs ! nat i)
      else if i < 0 \<and> - int (length xs) \<le> i then Inr (xs ! nat (int (length xs) + i))
      else Inl IndexError)"

text \<open>\<^verbatim>\<open>s.startswith(p)\<close>, a method of strings only.\<close>

definition startswith :: "string \<Rightarrow> string \<Rightarrow> bool" where
  "startswith s p = (take (length p) s = p)"

fun py_startswith :: "pyval \<Rightarrow> string \<Rightarrow> error + bool" where
  "py_startswith (PStr s) p = Inr (startswith s p)"
| "py_startswith _ p = Inl AttributeError"

section \<open>The blob information extractor\<close>

text \<open>
  The dictionary literal of \<^verbatim>\<open>extract_blob_info\<close>: nine \<^verbatim>\<open>event_data.get\<close> calls, in
  the order written.
\<close>

definition blob_fields :: "pyval \<Rightarrow> error + dict" where
  "blob_fields event_data =
     and_then (py_get event_data ''url'' (PStr '''')) (\<lambda>url.
     and_then (py_get event_data ''api'' (PStr '''')) (\<lambda>api.
     and_then (py_get event_data ''clientRequestId'' (PStr '''')) (\<lambda>client_request_id.
     and_then (py_get event_data ''requestId'' (PStr '''')) (\<lambda>request_id.
     and_then (py_get event_data ''eTag'' (PStr '''')) (\<lambda>etag.
     and_then (py_get event_data ''contentType'' (PStr '''')) (\<lambda>content_type.
     and_then (py_get event_data ''contentLength'' (PInt 0)) (\<lambda>content_length.
     and_then (py_get event_data ''blobType'' (PStr '''')) (\<lambda>blob_type.
     and_then (py_get event_data ''sequencer'' (PStr '''')) (\<lambda>sequencer.
     Inr [(''url'', url),
          (''api'', api),
          (''client_request_id'', client_request_id),
          (''request_id'', request_id),
          (''etag'', etag),
          (''content_type'', content_type),
          (''content_length'', content_length),
          (''blob_type'', blob_type),
          (''sequencer'', sequencer)])))))))))"

text \<open>
  The body of the \<^verbatim>\<open>try\<close>: the url is read and split once for the blob name
  (index -1) and once more for the container name (index -2).
\<close>

definition extract_blob_info_body :: "pyval \<Rightarrow> error + dict" where
  "extract_blob_info_body event_data =
     and_then (blob_fields event_data) (\<lambda>blob_info.
     and_then (dict_item blob_info ''url'') (\<lambda>url.
       if truthy url then
         and_then (py_split url CHR ''/'') (\<lambda>parts.
         and_then (subscript parts (- 1)) (\<lambda>blob_name.
         let blob_info1 = dict_set blob_info ''blob_name'' (PStr blob_name) in
         and_then (dict_item blob_info1 ''url'') (\<lambda>url2.
         and_then (py_split url2 CHR ''/'') (\<lambda>parts2.
         and_then (subscript parts2 (- 2)) (\<lambda>container_name.
         Inr (dict_set blob_info1 ''container_name'' (PStr container_name)))))))
       else Inr blob_info))"

text \<open>
  \<^verbatim>\<open>extract_blob_info\<close>: any exception of the body is logged and answered with the
  empty dictionary, so the function itself never raises.
\<close>

definition extract_blob_info :: "pyval \<Rightarrow> effect list \<times> dict" where
  "extract_blob_info event_data =
     (case extract_blob_info_body event_data of
        Inr blob_info \<Rightarrow> ([Enter ''extract_blob_info''], blob_info)
      | Inl e \<Rightarrow>
          ([Enter ''extract_blob_info'', Log ERROR ''Error extracting blob info: ''], []))"

section \<open>The dispatch on the content type\<close>

definition process_image_blob :: "dict \<Rightarrow> dict \<Rightarrow> unit run" where
  "process_image_blob blob_info event_info =
     emit [Enter ''process_image_blob'', Log INFO ''Processing image blob: '']"

definition process_text_blob :: "dict \<Rightarrow> dict \<Rightarrow> unit run" where
  "process_text_blob blob_info event_info =
     emit [Enter ''process_text_blob'', Log INFO ''Processing text blob: '']"

definition process_json_blob :: "dict \<Rightarrow> dict \<Rightarrow> unit run" where
  "process_json_blob blob_info event_info =
     emit [Enter ''process_json_blob'', Log INFO ''Processing JSON blob: '']"

definition process_generic_blob :: "dict \<Rightarrow> dict \<Rightarrow> unit run" where
  "process_generic_blob blob_info event_info =
     emit [Enter ''process_generic_blob'', Log INFO ''Processing generic blob: '']"

text \<open>
  \<^verbatim>\<open>process_blob_created\<close>: five log lines, then the \<^verbatim>\<open>if\<close>/\<^verbatim>\<open>elif\<close> chain on
  \<^verbatim>\<open>content_type\<close>. The chain calls \<^verbatim>\<open>startswith\<close> on whatever the dictionary holds.
\<close>

definition process_blob_created :: "dict \<Rightarrow> dict \<Rightarrow> unit run" where
  "process_blob_created blob_info event_info =
     then_run (emit [Enter ''process_blob_created'',
                     Log INFO ''Processing blob creation:'',
                     Log INFO ''  - Blob Name: '',
                     Log INFO ''  - Container: '',
                     Log INFO ''  - Content Type: '',
                     Log INFO ''  - Content Length: '',
                     Log INFO ''  - Event Time: '']) (\<lambda>_.
     let blob_name = dict_get blob_info ''blob_name'' (PStr '''');
         content_type = dict_get blob_info ''content_type'' (PStr '''')
     in
     then_run (lift (py_startswith content_type ''image/'')) (\<lambda>is_image.
       if is_image then process_image_blob blob_info event_info
       else
         then_run (lift (py_startswith content_type ''text/'')) (\<lambda>is_text.
           if is_text then process_text_blob blob_info event_info
           else if content_type = PStr ''application/json''
           then process_json_blob blob_info event_info
           else process_generic_blob blob_info event_info)))"

section \<open>The Event Grid trigger\<close>

text \<open>
  The event object handed to \<^verbatim>\<open>blob_created_handler\<close>: its attributes by name, and what the
  call \<^verbatim>\<open>event.get_json()\<close> does, which is to return a value or to raise. Reading an
  attribute the object does not have raises \<^verbatim>\<open>AttributeError\<close>; \<^verbatim>\<open>getattr\<close> with a default
  gives the default instead. The event time is carried as a value like the others.
\<close>

record grid_event =
  ev_attrs :: "(string \<times> pyval) list"
  ev_get_json :: "error + pyval"

definition getattr :: "grid_event \<Rightarrow> string \<Rightarrow> error + pyval" where
  "getattr event name =
     (case map_of (ev_attrs event) name of None \<Rightarrow> Inl AttributeError | Some v \<Rightarrow> Inr v)"

definition getattr_default :: "grid_event \<Rightarrow> string \<Rightarrow> pyval \<Rightarrow> pyval" where
  "getattr_default event name dflt =
     (case map_of (ev_attrs event) name of None \<Rightarrow> dflt | Some v \<Rightarrow> v)"

text \<open>
  The class the handler declares for its parameter, \<^verbatim>\<open>func.EventGridEvent\<close>. An event of
  the class has the attributes \<^verbatim>\<open>id\<close>, \<^verbatim>\<open>topic\<close>, \<^verbatim>\<open>subject\<close>, \<^verbatim>\<open>event_type\<close>, \<^verbatim>\<open>event_time\<close>
  and \<^verbatim>\<open>data_version\<close>, and its \<^verbatim>\<open>get_json\<close>; it has no attribute \<^verbatim>\<open>source\<close>.
\<close>

definition EventGridEvent ::
  "pyval \<Rightarrow> pyval \<Rightarrow> pyval \<Rightarrow> pyval \<Rightarrow> pyval \<Rightarrow> pyval \<Rightarrow> error + pyval \<Rightarrow> grid_event" where
  "EventGridEvent v_id v_topic v_subject v_event_type v_event_time v_data_version json =
     \<lparr>ev_attrs = [(''id'', v_id),
                  (''topic'', v_topic),
                  (''subject'', v_subject),
                  (''event_type'', v_event_type),
                  (''event_time'', v_event_time),
                  (''data_version'', v_data_version)],
      ev_get_json = json\<rparr>"

text \<open>
  The dictionary literal \<^verbatim>\<open>event_info\<close>: five attribute reads in the order written, then
  the \<^verbatim>\<open>getattr\<close> with its default.
\<close>

definition grid_event_info :: "grid_event \<Rightarrow> error + dict" where
  "grid_event_info event =
     and_then (getattr event ''id'') (\<lambda>v_id.
     and_then (getattr event ''source'') (\<lambda>v_source.
     and_then (getattr event ''subject'') (\<lambda>v_subject.
     and_then (getattr event ''event_type'') (\<lambda>v_event_type.
     and_then (getattr event ''event_time'') (\<lambda>v_event_time.
     Inr [(''id'', v_id),
          (''source'', v_source),
          (''subject'', v_subject),
          (''event_type'', v_event_type),
          (''event_time'', v_event_time),
          (''data_version'', getattr_default event ''data_version'' (PStr ''unknown''))])))))"

text \<open>
  The body of the handler's \<^verbatim>\<open>try\<close>: the payload is fetched first, the metadata are read
  next, and only then comes the truth test on the payload.
\<close>

definition blob_created_handler_body :: "grid_event \<Rightarrow> unit run" where
  "blob_created_handler_body event =
     then_run (emit [Log INFO ''Raw event received: '']) (\<lambda>_.
     then_run (lift (ev_get_json event)) (\<lambda>event_data.
     then_run (lift (grid_event_info event)) (\<lambda>event_info.
     then_run (emit [Log INFO ''CloudEvent metadata: '']) (\<lambda>_.
       if truthy event_data then
         (case extract_blob_info event_data of
            (tr, blob_info) \<Rightarrow>
              then_run (emit tr) (\<lambda>_. process_blob_created blob_info event_info))
       else emit [Log WARNING ''No event data found in CloudEvent'']))))"

text \<open>
  \<^verbatim>\<open>blob_created_handler\<close>: the \<^verbatim>\<open>except\<close> clause logs and raises the same exception
  again.
\<close>

definition blob_created_handler :: "grid_event \<Rightarrow> unit run" where
  "blob_created_handler event =
     (case blob_created_handler_body event of
        (tr, Inl e) \<Rightarrow> (tr @ [Log ERROR ''Error processing CloudEvent: ''], Inl e)
      | (tr, Inr u) \<Rightarrow> (tr, Inr u))"

section \<open>The HTTP trigger\<close>

text \<open>
  The fields \<^verbatim>\<open>process_cloudevent_http\<close> reads from the decoded envelope, under the names
  of its local variables.
\<close>

record cloudevent =
  spec_version :: pyval
  event_type :: pyval
  source :: pyval
  event_id :: pyval
  subject :: pyval
  time :: pyval
  data :: pyval

definition cloudevent_fields :: "pyval \<Rightarrow> error + cloudevent" where
  "cloudevent_fields event_data =
     and_then (py_get event_data ''specversion'' (PStr ''1.0'')) (\<lambda>v_spec_version.
     and_then (py_get event_data ''type'' (PStr '''')) (\<lambda>v_event_type.
     and_then (py_get event_data ''source'' (PStr '''')) (\<lambda>v_source.
     and_then (py_get event_data ''id'' (PStr '''')) (\<lambda>v_event_id.
     and_then (py_get event_data ''subject'' (PStr '''')) (\<lambda>v_subject.
     and_then (py_get event_data ''time'' (PStr '''')) (\<lambda>v_time.
     and_then (py_get event_data ''data'' (PDict [])) (\<lambda>v_data.
     Inr \<lparr>spec_version = v_spec_version, event_type = v_event_type, source = v_source,
          event_id = v_event_id, subject = v_subject, time = v_time,
          data = v_data\<rparr>)))))))"

definition cloudevent_info :: "cloudevent \<Rightarrow> dict" where
  "cloudevent_info ce =
     [(''id'', event_id ce),
      (''source'', source ce),
      (''subject'', subject ce),
      (''event_type'', event_type ce),
      (''event_time'', time ce),
      (''spec_version'', spec_version ce)]"

definition process_cloudevent_http :: "pyval \<Rightarrow> unit run" where
  "process_cloudevent_http event_data =
     then_run (emit [Enter ''process_cloudevent_http'',
                     Log INFO ''CloudEvent received: '']) (\<lambda>_.
     then_run (lift (cloudevent_fields event_data)) (\<lambda>ce.
     then_run (emit [Log INFO ''CloudEvent Details:'',
                     Log INFO ''  - Spec Version: '',
                     Log INFO ''  - Type: '',
                     Log INFO ''  - Source: '',
                     Log INFO ''  - ID: '',
                     Log INFO ''  - Subject: '',
                     Log INFO ''  - Time: '']) (\<lambda>_.
       if event_type ce = PStr ''Microsoft.Storage.BlobCreated'' then
         (case extract_blob_info (data ce) of
            (tr, blob_info) \<Rightarrow>
              then_run (emit tr) (\<lambda>_.
              process_blob_created blob_info (cloudevent_info ce)))
       else emit [Log WARNING ''Unknown event type: ''])))"

text \<open>
  A request, as far as the handlers touch it: the method, the headers (each under the
  name by which the platform's header mapping finds it), and what the call
  \<^verbatim>\<open>req.get_json()\<close> does: it returns the decoded body, or raises \<^verbatim>\<open>ValueError\<close> when the
  body does not decode, as an empty body and a body that is not JSON do not. A response:
  the status code, the headers, and the value whose \<^verbatim>\<open>json.dumps\<close> text is the body, if a
  body is given.
\<close>

record http_request =
  req_method :: string
  req_headers :: "(string \<times> string) list"
  req_get_json :: "error + pyval"

record http_response =
  status_code :: int
  headers :: "(string \<times> string) list"
  body :: "pyval option"

text \<open>
  \<^verbatim>\<open>func.HttpResponse(body, status_code=..., headers=...)\<close>. The platform's response class
  raises on a header value it does not take (one with a line break in it); which values
  it takes is the parameter \<open>accepts\<close>. Without headers the construction cannot fail.
\<close>

definition HttpResponse ::
  "(string \<Rightarrow> bool) \<Rightarrow> pyval option \<Rightarrow> int \<Rightarrow> (string \<times> string) list
     \<Rightarrow> error + http_response" where
  "HttpResponse accepts b code hs =
     (if list_all (\<lambda>(k, v). accepts v) hs
      then Inr \<lparr>status_code = code, headers = hs, body = b\<rparr>
      else Inl ValueError)"

text \<open>The body of the \<^verbatim>\<open>try\<close> inside the \<^verbatim>\<open>POST\<close> branch.\<close>

definition post_cloudevent :: "(string \<Rightarrow> bool) \<Rightarrow> http_request \<Rightarrow> http_response run" where
  "post_cloudevent accepts req =
     then_run (lift (req_get_json req)) (\<lambda>event_data.
       if \<not> truthy event_data then
         then_run (emit [Log ERROR ''No JSON data in request'']) (\<lambda>_.
         lift (HttpResponse accepts None 400 []))
       else
         then_run (process_cloudevent_http event_data) (\<lambda>_.
         lift (HttpResponse accepts None 200 [])))"

text \<open>
  The body of the outer \<^verbatim>\<open>try\<close> of \<^verbatim>\<open>blob_created_http_handler\<close>. The header lookup
  gives \<^verbatim>\<open>None\<close> or a string, and \<^verbatim>\<open>if origin:\<close> is the truth test on it. The inner
  \<^verbatim>\<open>except\<close> of the \<^verbatim>\<open>POST\<close> branch logs and answers 500.
\<close>

definition blob_created_http_handler_body ::
  "(string \<Rightarrow> bool) \<Rightarrow> http_request \<Rightarrow> http_response run" where
  "blob_created_http_handler_body accepts req =
     (if req_method req = ''OPTIONS'' then
        then_run (emit [Log INFO ''Handling CloudEvent validation request'']) (\<lambda>_.
          case map_of (req_headers req) ''WebHook-Request-Origin'' of
            None \<Rightarrow> lift (HttpResponse accepts None 400 [])
          | Some origin \<Rightarrow>
              if truthy (PStr origin) then
                lift (HttpResponse accepts None 200 [(''WebHook-Allowed-Origin'', origin)])
              else lift (HttpResponse accepts None 400 []))
      else if req_method req = ''POST'' then
        then_run (emit [Log INFO ''Processing CloudEvent via HTTP trigger'']) (\<lambda>_.
          case post_cloudevent accepts req of
            (tr, Inr resp) \<Rightarrow> (tr, Inr resp)
          | (tr, Inl e) \<Rightarrow>
              then_run (emit (tr @ [Log ERROR ''Error processing CloudEvent: ''])) (\<lambda>_.
              lift (HttpResponse accepts None 500 [])))
      else lift (HttpResponse accepts None 405 []))"

text \<open>
  \<^verbatim>\<open>blob_created_http_handler\<close>: the outer \<^verbatim>\<open>except\<close> logs whatever the body raised and
  answers 500.
\<close>

definition blob_created_http_handler ::
  "(string \<Rightarrow> bool) \<Rightarrow> http_request \<Rightarrow> http_response run" where
  "blob_created_http_handler accepts req =
     (case blob_created_http_handler_body accepts req of
        (tr, Inr resp) \<Rightarrow> (tr, Inr resp)
      | (tr, Inl e) \<Rightarrow>
          then_run (emit (tr @ [Log ERROR ''Error in HTTP CloudEvent handler: ''])) (\<lambda>_.
          lift (HttpResponse accepts None 500 [])))"

text \<open>A response class that takes every header value but those with a line break.\<close>

definition no_line_break :: "string \<Rightarrow> bool" where
  "no_line_break v = (CHR 0x0A \<notin> set v \<and> CHR 0x0D \<notin> set v)"

section \<open>The health check\<close>

text \<open>
  \<^verbatim>\<open>health_check\<close>. The name \<^verbatim>\<open>func\<close> is the package \<^verbatim>\<open>azure.functions\<close>, and the argument
  of \<^verbatim>\<open>json.dumps\<close> reads \<^verbatim>\<open>func.datetime\<close>. The first parameter says what that read finds:
  nothing, and the read raises \<^verbatim>\<open>AttributeError\<close>, or a \<^verbatim>\<open>datetime\<close> whose
  \<^verbatim>\<open>utcnow().isoformat()\<close> is the given text.
\<close>

definition health_check ::
  "string option \<Rightarrow> (string \<Rightarrow> bool) \<Rightarrow> http_request \<Rightarrow> error + http_response" where
  "health_check func_datetime accepts req =
     (case func_datetime of
        None \<Rightarrow> Inl AttributeError
      | Some utcnow_isoformat \<Rightarrow>
          HttpResponse accepts
            (Some (PDict [(''status'', PStr ''healthy''),
                          (''timestamp'', PStr utcnow_isoformat),
                          (''version'', PStr ''1.0.0'')]))
            200
            [(''Content-Type'', ''application/json'')])"

text \<open>
  The package \<^verbatim>\<open>azure.functions\<close> has no attribute \<^verbatim>\<open>datetime\<close>, and the module imports
  none under that name.
\<close>

definition azure_functions_datetime :: "string option" where
  "azure_functions_datetime = None"

section \<open>Observing a run\<close>

text \<open>The functions of the module a run entered, in the order of their calls.\<close>

fun entered :: "effect list \<Rightarrow> string list" where
  "entered [] = []"
| "entered (Enter f # tr) = f # entered tr"
| "entered (Log l m # tr) = entered tr"

text \<open>The records a run logged at a given level.\<close>

fun logged :: "level \<Rightarrow> effect list \<Rightarrow> string list" where
  "logged l [] = []"
| "logged l (Enter f # tr) = logged l tr"
| "logged l (Log l' m # tr) = (if l' = l then m # logged l tr else logged l tr)"

section \<open>Basic facts about the operations\<close>

lemma and_then_Inl: "and_then (Inl e) f = Inl e"
  by (simp add: and_then_def)

lemma and_then_Inr: "and_then (Inr x) f = f x"
  by (simp add: and_then_def)

lemma then_run_Inl: "then_run (tr, Inl e) f = (tr, Inl e)"
  by (simp add: then_run_def)

lemma then_run_Inr: "then_run (tr, Inr x) f = (tr @ fst (f x), snd (f x))"
  by (simp add: then_run_def split: prod.splits)

lemma then_run_emit: "then_run (emit tr) f = (tr @ fst (f ()), snd (f ()))"
  by (simp add: emit_def then_run_Inr)

lemma then_run_lift:
  "then_run (lift r) f = (case r of Inl e \<Rightarrow> ([], Inl e) | Inr x \<Rightarrow> f x)"
  by (simp add: lift_def then_run_def split: sum.splits prod.splits)

lemma split_not_Nil: "split sep s \<noteq> []"
  by (induction s) (auto split: list.splits)

lemma split_no_sep: "sep \<notin> set s \<Longrightarrow> split sep s = [s]"
  by (induction s) auto

lemma length_split: "length (split sep s) = Suc (count_list s sep)"
  by (induction s) (auto split: list.splits simp: split_not_Nil)

lemma map_of_dict_set:
  "map_of (dict_set d k v) k' = (if k' = k then Some v else map_of d k')"
  by (induction d k v rule: dict_set.induct) auto

lemma dict_set_not_Nil: "dict_set d k v \<noteq> []"
  by (cases d) (auto split: if_splits)

lemma startswith_prefix: "startswith s p \<longleftrightarrow> prefix p s"
  unfolding startswith_def prefix_def
  by (metis append_eq_conv_conj append_take_drop_id)

lemma blob_fields_dict:
  "blob_fields (PDict kvs) =
     Inr [(''url'', dict_get kvs ''url'' (PStr '''')),
          (''api'', dict_get kvs ''api'' (PStr '''')),
          (''client_request_id'', dict_get kvs ''clientRequestId'' (PStr '''')),
          (''request_id'', dict_get kvs ''requestId'' (PStr '''')),
          (''etag'', dict_get kvs ''eTag'' (PStr '''')),
          (''content_type'', dict_get kvs ''contentType'' (PStr '''')),
          (''content_length'', dict_get kvs ''contentLength'' (PInt 0)),
          (''blob_type'', dict_get kvs ''blobType'' (PStr '''')),
          (''sequencer'', dict_get kvs ''sequencer'' (PStr ''''))]"
  by (simp add: blob_fields_def and_then_Inr)

lemma blob_fields_not_dict:
  "(\<And>kvs. event_data \<noteq> PDict kvs) \<Longrightarrow> blob_fields event_data = Inl AttributeError"
  by (cases event_data) (auto simp: blob_fields_def and_then_Inl)

text \<open>A payload that is no dictionary has no \<^verbatim>\<open>get\<close>: the extractor answers the empty one.\<close>

lemma extract_blob_info_not_dict:
  "(\<And>kvs. event_data \<noteq> PDict kvs) \<Longrightarrow>
   extract_blob_info event_data =
     ([Enter ''extract_blob_info'', Log ERROR ''Error extracting blob info: ''], [])"
  by (simp add: extract_blob_info_def extract_blob_info_body_def blob_fields_not_dict
      and_then_Inl)

text \<open>Every call of the extractor is entered once, and enters nothing else.\<close>

lemma extract_blob_info_trace:
  "fst (extract_blob_info d) = [Enter ''extract_blob_info'']
   \<or> fst (extract_blob_info d) =
        [Enter ''extract_blob_info'', Log ERROR ''Error extracting blob info: '']"
  by (simp add: extract_blob_info_def split: sum.splits)

lemma extract_blob_info_enters:
  "count_list (fst (extract_blob_info d)) (Enter f) =
     (if f = ''extract_blob_info'' then 1 else 0)"
  using extract_blob_info_trace [of d] by auto

lemma entered_append: "entered (xs @ ys) = entered xs @ entered ys"
  by (induction xs rule: entered.induct) auto

lemma logged_append: "logged l (xs @ ys) = logged l xs @ logged l ys"
  by (induction l xs rule: logged.induct) auto

lemma entered_extract_blob_info:
  "entered (fst (extract_blob_info d)) = [''extract_blob_info'']"
  using extract_blob_info_trace [of d] by auto

text \<open>The two ways \<^verbatim>\<open>process_blob_created\<close> can go: the content type is a string, or not.\<close>

lemma process_blob_created_str:
  "dict_get blob_info ''content_type'' (PStr '''') = PStr s \<Longrightarrow>
   process_blob_created blob_info event_info =
     ([Enter ''process_blob_created'',
       Log INFO ''Processing blob creation:'',
       Log INFO ''  - Blob Name: '',
       Log INFO ''  - Container: '',
       Log INFO ''  - Content Type: '',
       Log INFO ''  - Content Length: '',
       Log INFO ''  - Event Time: ''] @
      (if prefix ''image/'' s
       then [Enter ''process_image_blob'', Log INFO ''Processing image blob: '']
       else if prefix ''text/'' s
       then [Enter ''process_text_blob'', Log INFO ''Processing text blob: '']
       else if s = ''application/json''
       then [Enter ''process_json_blob'', Log INFO ''Processing JSON blob: '']
       else [Enter ''process_generic_blob'', Log INFO ''Processing generic blob: '']),
      Inr ())"
  by (simp add: process_blob_created_def then_run_def emit_def lift_def startswith_prefix
      process_image_blob_def process_text_blob_def process_json_blob_def
      process_generic_blob_def)

lemma process_blob_created_not_str:
  "(\<And>s. dict_get blob_info ''content_type'' (PStr '''') \<noteq> PStr s) \<Longrightarrow>
   process_blob_created blob_info event_info =
     ([Enter ''process_blob_created'',
       Log INFO ''Processing blob creation:'',
       Log INFO ''  - Blob Name: '',
       Log INFO ''  - Container: '',
       Log INFO ''  - Content Type: '',
       Log INFO ''  - Content Length: '',
       Log INFO ''  - Event Time: ''], Inl AttributeError)"
  by (cases "dict_get blob_info ''content_type'' (PStr '''')")
     (auto simp add: process_blob_created_def then_run_emit then_run_lift)

lemma count_entered_process_blob_created:
  "count_list (entered (fst (process_blob_created blob_info event_info)))
     ''process_blob_created'' = 1
   \<and> count_list (entered (fst (process_blob_created blob_info event_info)))
     ''extract_blob_info'' = 0"
proof (cases "\<exists>s. dict_get blob_info ''content_type'' (PStr '''') = PStr s")
  case True
  then obtain s where "dict_get blob_info ''content_type'' (PStr '''') = PStr s" ..
  then show ?thesis
    by (simp add: process_blob_created_str)
next
  case False
  then have "\<And>s. dict_get blob_info ''content_type'' (PStr '''') \<noteq> PStr s"
    by blast
  then show ?thesis
    by (simp add: process_blob_created_not_str)
qed

text \<open>The ways the body of the Event Grid handler can go.\<close>

lemma handler_body_get_json_raises:
  "ev_get_json event = Inl e \<Longrightarrow>
   blob_created_handler_body event = ([Log INFO ''Raw event received: ''], Inl e)"
  by (simp add: blob_created_handler_body_def then_run_def emit_def lift_def)

lemma handler_body_attribute_raises:
  "ev_get_json event = Inr d \<Longrightarrow> grid_event_info event = Inl e \<Longrightarrow>
   blob_created_handler_body event = ([Log INFO ''Raw event received: ''], Inl e)"
  by (simp add: blob_created_handler_body_def then_run_def emit_def lift_def)

lemma handler_body_falsy:
  "ev_get_json event = Inr d \<Longrightarrow> grid_event_info event = Inr info \<Longrightarrow> \<not> truthy d \<Longrightarrow>
   blob_created_handler_body event =
     ([Log INFO ''Raw event received: '', Log INFO ''CloudEvent metadata: '',
       Log WARNING ''No event data found in CloudEvent''], Inr ())"
  by (simp add: blob_created_handler_body_def then_run_def emit_def lift_def)

lemma handler_body_truthy:
  "ev_get_json event = Inr d \<Longrightarrow> grid_event_info event = Inr info \<Longrightarrow> truthy d \<Longrightarrow>
   blob_created_handler_body event =
     ([Log INFO ''Raw event received: '', Log INFO ''CloudEvent metadata: '']
        @ fst (extract_blob_info d)
        @ fst (process_blob_created (snd (extract_blob_info d)) info),
      snd (process_blob_created (snd (extract_blob_info d)) info))"
  by (simp add: blob_created_handler_body_def then_run_def emit_def lift_def
      split: prod.splits sum.splits)

text \<open>
  An event of the platform's class has no \<^verbatim>\<open>source\<close>: the metadata cannot be read, and
  the handler raises before it looks at the payload.
\<close>

lemma grid_event_info_EventGridEvent:
  "grid_event_info
     (EventGridEvent v_id v_topic v_subject v_event_type v_event_time v_data_version json)
   = Inl AttributeError"
  by (simp add: grid_event_info_def EventGridEvent_def getattr_def and_then_def)

lemma handler_on_EventGridEvent:
  "blob_created_handler
     (EventGridEvent v_id v_topic v_subject v_event_type v_event_time v_data_version (Inr d))
   = ([Log INFO ''Raw event received: '', Log ERROR ''Error processing CloudEvent: ''],
      Inl AttributeError)"
proof -
  have "ev_get_json
     (EventGridEvent v_id v_topic v_subject v_event_type v_event_time v_data_version (Inr d))
     = Inr d"
    by (simp add: EventGridEvent_def)
  from handler_body_attribute_raises [OF this grid_event_info_EventGridEvent]
  show ?thesis
    by (simp add: blob_created_handler_def)
qed

text \<open>A response without headers is always built.\<close>

lemma HttpResponse_no_headers:
  "HttpResponse accepts b code [] = Inr \<lparr>status_code = code, headers = [], body = b\<rparr>"
  by (simp add: HttpResponse_def)

lemma HttpResponse_one_header:
  "HttpResponse accepts b code [(k, v)] =
     (if accepts v then Inr \<lparr>status_code = code, headers = [(k, v)], body = b\<rparr>
      else Inl ValueError)"
  by (simp add: HttpResponse_def)

section \<open>The health check\<close>

text \<open>With a clock behind \<^verbatim>\<open>func.datetime\<close> the health check would answer as described.\<close>

lemma health_check_with_clock:
  "accepts ''application/json'' \<Longrightarrow>
   health_check (Some now) accepts req =
     Inr \<lparr>status_code = 200,
          headers = [(''Content-Type'', ''application/json'')],
          body = Some (PDict [(''status'', PStr ''healthy''),
                              (''timestamp'', PStr now),
                              (''version'', PStr ''1.0.0'')])\<rparr>"
  by (simp add: health_check_def HttpResponse_one_header)

text \<open>
  Claim C1, on the code. Whatever the request, the health check builds no response: the
  read of \<^verbatim>\<open>func.datetime\<close> raises \<^verbatim>\<open>AttributeError\<close>, which nothing in the function
  catches.
\<close>

theorem health_check_raises:
  "health_check azure_functions_datetime accepts req = Inl AttributeError"
  by (simp add: health_check_def azure_functions_datetime_def)

section \<open>The validation handshake\<close>

text \<open>The handler itself never raises: both of its \<^verbatim>\<open>except\<close> clauses answer 500.\<close>

lemma http_handler_returns:
  "\<exists>resp. snd (blob_created_http_handler accepts req) = Inr resp"
  by (simp add: blob_created_http_handler_def then_run_def emit_def lift_def
      HttpResponse_no_headers split: prod.splits sum.splits)

lemma options_body:
  "req_method req = ''OPTIONS'' \<Longrightarrow>
   blob_created_http_handler_body accepts req =
     ([Log INFO ''Handling CloudEvent validation request''],
      (case map_of (req_headers req) ''WebHook-Request-Origin'' of
         None \<Rightarrow> Inr \<lparr>status_code = 400, headers = [], body = None\<rparr>
       | Some origin \<Rightarrow>
           if origin = '''' then Inr \<lparr>status_code = 400, headers = [], body = None\<rparr>
           else if accepts origin
           then Inr \<lparr>status_code = 200, headers = [(''WebHook-Allowed-Origin'', origin)],
                     body = None\<rparr>
           else Inl ValueError))"
  by (simp add: blob_created_http_handler_body_def then_run_def emit_def lift_def
      HttpResponse_no_headers HttpResponse_one_header split: option.splits)

text \<open>
  Claim C2, as stated, at a request whose origin header is present and empty: the header
  is there, the answer is 400 and grants nothing.
\<close>

theorem options_empty_origin_counterexample:
  "map_of (req_headers \<lparr>req_method = ''OPTIONS'',
                        req_headers = [(''WebHook-Request-Origin'', '''')],
                        req_get_json = Inl ValueError\<rparr>) ''WebHook-Request-Origin''
     = Some ''''
   \<and> snd (blob_created_http_handler no_line_break
            \<lparr>req_method = ''OPTIONS'',
             req_headers = [(''WebHook-Request-Origin'', '''')],
             req_get_json = Inl ValueError\<rparr>)
     = Inr \<lparr>status_code = 400, headers = [], body = None\<rparr>"
  by (simp add: blob_created_http_handler_def options_body)

text \<open>
  Claim C2, amended. For every OPTIONS request: if the header
  \<^verbatim>\<open>WebHook-Request-Origin\<close> is present with a non-empty value that the response class takes
  as a header value, the answer is 200 and its only header is \<^verbatim>\<open>WebHook-Allowed-Origin\<close>
  with that same value; if the header is absent or its value is the empty string, the
  answer is 400; if the value is non-empty and the response class refuses it, building
  the answer raises and the handler's own \<^verbatim>\<open>except\<close> answers 500, with no header.
\<close>

theorem options_handshake:
  assumes "req_method req = ''OPTIONS''"
  shows "(\<forall>origin. map_of (req_headers req) ''WebHook-Request-Origin'' = Some origin
            \<and> origin \<noteq> '''' \<and> accepts origin \<longrightarrow>
            snd (blob_created_http_handler accepts req)
              = Inr \<lparr>status_code = 200, headers = [(''WebHook-Allowed-Origin'', origin)],
                     body = None\<rparr>)
       \<and> (\<forall>origin. map_of (req_headers req) ''WebHook-Request-Origin'' = Some origin
            \<and> origin \<noteq> '''' \<and> \<not> accepts origin \<longrightarrow>
            snd (blob_created_http_handler accepts req)
              = Inr \<lparr>status_code = 500, headers = [], body = None\<rparr>)
       \<and> (map_of (req_headers req) ''WebHook-Request-Origin'' = None
            \<or> map_of (req_headers req) ''WebHook-Request-Origin'' = Some '''' \<longrightarrow>
            snd (blob_created_http_handler accepts req)
              = Inr \<lparr>status_code = 400, headers = [], body = None\<rparr>)"
  by (auto simp: blob_created_http_handler_def options_body [OF assms] then_run_def
      emit_def lift_def HttpResponse_no_headers)

theorem options_handshake_witness:
  "req_method \<lparr>req_method = ''OPTIONS'',
               req_headers = [(''WebHook-Request-Origin'', ''https://example.com'')],
               req_get_json = Inl ValueError\<rparr> = ''OPTIONS''
   \<and> no_line_break ''https://example.com''
   \<and> snd (blob_created_http_handler no_line_break
        \<lparr>req_method = ''OPTIONS'',
         req_headers = [(''WebHook-Request-Origin'', ''https://example.com'')],
         req_get_json = Inl ValueError\<rparr>)
       = Inr \<lparr>status_code = 200,
              headers = [(''WebHook-Allowed-Origin'', ''https://example.com'')],
              body = None\<rparr>
   \<and> \<not> no_line_break [CHR ''a'', CHR 0x0A, CHR ''b'']
   \<and> snd (blob_created_http_handler no_line_break
        \<lparr>req_method = ''OPTIONS'',
         req_headers = [(''WebHook-Request-Origin'', [CHR ''a'', CHR 0x0A, CHR ''b''])],
         req_get_json = Inl ValueError\<rparr>)
       = Inr \<lparr>status_code = 500, headers = [], body = None\<rparr>
   \<and> snd (blob_created_http_handler no_line_break
        \<lparr>req_method = ''OPTIONS'', req_headers = [],
         req_get_json = Inl ValueError\<rparr>)
       = Inr \<lparr>status_code = 400, headers = [], body = None\<rparr>"
  using
    options_handshake [of "\<lparr>req_method = ''OPTIONS'',
         req_headers = [(''WebHook-Request-Origin'', ''https://example.com'')],
         req_get_json = Inl ValueError\<rparr>" no_line_break]
    options_handshake [of "\<lparr>req_method = ''OPTIONS'',
         req_headers = [(''WebHook-Request-Origin'', [CHR ''a'', CHR 0x0A, CHR ''b''])],
         req_get_json = Inl ValueError\<rparr>" no_line_break]
    options_handshake [of "\<lparr>req_method = ''OPTIONS'', req_headers = [],
         req_get_json = Inl ValueError\<rparr>" no_line_break]
  by (simp add: no_line_break_def)

section \<open>The dispatch\<close>

text \<open>
  Claim C8. For every content type that is a string (an absent one reads as the empty
  string), \<^verbatim>\<open>process_blob_created\<close> returns normally having entered exactly one stub,
  the first that matches: the image stub when the string has the prefix "image/", else
  the text stub when it has the prefix "text/", else the JSON stub when it is exactly
  "application/json", else the generic stub. The comparison is on the characters as they
  are.
\<close>

theorem dispatch_one_stub:
  assumes "dict_get blob_info ''content_type'' (PStr '''') = PStr s"
  shows "snd (process_blob_created blob_info event_info) = Inr ()
     \<and> entered (fst (process_blob_created blob_info event_info)) =
         [''process_blob_created'',
          if prefix ''image/'' s then ''process_image_blob''
          else if prefix ''text/'' s then ''process_text_blob''
          else if s = ''application/json'' then ''process_json_blob''
          else ''process_generic_blob'']"
  by (simp add: process_blob_created_str [OF assms])

theorem dispatch_one_stub_witness:
  "entered (fst (process_blob_created [(''content_type'', PStr ''image/png'')] []))
     = [''process_blob_created'', ''process_image_blob'']
   \<and> entered (fst (process_blob_created [(''content_type'', PStr ''text/plain'')] []))
     = [''process_blob_created'', ''process_text_blob'']
   \<and> entered (fst (process_blob_created [(''content_type'', PStr ''application/json'')] []))
     = [''process_blob_created'', ''process_json_blob'']
   \<and> entered (fst (process_blob_created [(''content_type'', PStr ''Image/png'')] []))
     = [''process_blob_created'', ''process_generic_blob'']
   \<and> entered (fst (process_blob_created [(''content_type'', PStr '''')] []))
     = [''process_blob_created'', ''process_generic_blob'']
   \<and> entered (fst (process_blob_created [] []))
     = [''process_blob_created'', ''process_generic_blob'']"
  using
    dispatch_one_stub [of "[(''content_type'', PStr ''image/png'')]" "''image/png''" "[]"]
    dispatch_one_stub [of "[(''content_type'', PStr ''text/plain'')]" "''text/plain''" "[]"]
    dispatch_one_stub [of "[(''content_type'', PStr ''application/json'')]"
      "''application/json''" "[]"]
    dispatch_one_stub [of "[(''content_type'', PStr ''Image/png'')]" "''Image/png''" "[]"]
    dispatch_one_stub [of "[(''content_type'', PStr '''')]" "''''" "[]"]
    dispatch_one_stub [of "[]" "''''" "[]"]
  by (simp add: dict_get_def)

text \<open>The envelope fields: seven \<^verbatim>\<open>get\<close> calls on the same value.\<close>

lemma cloudevent_fields_dict:
  "cloudevent_fields (PDict kvs) =
     Inr \<lparr>spec_version = dict_get kvs ''specversion'' (PStr ''1.0''),
          event_type = dict_get kvs ''type'' (PStr ''''),
          source = dict_get kvs ''source'' (PStr ''''),
          event_id = dict_get kvs ''id'' (PStr ''''),
          subject = dict_get kvs ''subject'' (PStr ''''),
          time = dict_get kvs ''time'' (PStr ''''),
          data = dict_get kvs ''data'' (PDict [])\<rparr>"
  by (simp add: cloudevent_fields_def and_then_Inr)

lemma cloudevent_fields_not_dict:
  "(\<And>kvs. event_data \<noteq> PDict kvs) \<Longrightarrow> cloudevent_fields event_data = Inl AttributeError"
  by (cases event_data) (auto simp: cloudevent_fields_def and_then_Inl)

lemma dict_get_type_created:
  "dict_get kvs ''type'' (PStr '''') = PStr ''Microsoft.Storage.BlobCreated''
   \<longleftrightarrow> map_of kvs ''type'' = Some (PStr ''Microsoft.Storage.BlobCreated'')"
  by (simp add: dict_get_def split: option.splits)

text \<open>The ways \<^verbatim>\<open>process_cloudevent_http\<close> can go.\<close>

lemma process_cloudevent_http_not_dict:
  "(\<And>kvs. event_data \<noteq> PDict kvs) \<Longrightarrow>
   process_cloudevent_http event_data =
     ([Enter ''process_cloudevent_http'', Log INFO ''CloudEvent received: ''],
      Inl AttributeError)"
  by (simp add: process_cloudevent_http_def cloudevent_fields_not_dict then_run_def
      emit_def lift_def)

lemma process_cloudevent_http_other:
  "map_of kvs ''type'' \<noteq> Some (PStr ''Microsoft.Storage.BlobCreated'') \<Longrightarrow>
   process_cloudevent_http (PDict kvs) =
     ([Enter ''process_cloudevent_http'',
       Log INFO ''CloudEvent received: '',
       Log INFO ''CloudEvent Details:'',
       Log INFO ''  - Spec Version: '',
       Log INFO ''  - Type: '',
       Log INFO ''  - Source: '',
       Log INFO ''  - ID: '',
       Log INFO ''  - Subject: '',
       Log INFO ''  - Time: '',
       Log WARNING ''Unknown event type: ''], Inr ())"
  by (simp add: process_cloudevent_http_def cloudevent_fields_dict then_run_def
      emit_def lift_def dict_get_type_created)

lemma process_cloudevent_http_created:
  assumes "map_of kvs ''type'' = Some (PStr ''Microsoft.Storage.BlobCreated'')"
  shows "process_cloudevent_http (PDict kvs) =
     ([Enter ''process_cloudevent_http'',
       Log INFO ''CloudEvent received: '',
       Log INFO ''CloudEvent Details:'',
       Log INFO ''  - Spec Version: '',
       Log INFO ''  - Type: '',
       Log INFO ''  - Source: '',
       Log INFO ''  - ID: '',
       Log INFO ''  - Subject: '',
       Log INFO ''  - Time: '']
        @ fst (extract_blob_info (dict_get kvs ''data'' (PDict [])))
        @ fst (process_blob_created
                 (snd (extract_blob_info (dict_get kvs ''data'' (PDict []))))
                 (cloudevent_info (projr (cloudevent_fields (PDict kvs))))),
      snd (process_blob_created
             (snd (extract_blob_info (dict_get kvs ''data'' (PDict []))))
             (cloudevent_info (projr (cloudevent_fields (PDict kvs))))))"
proof -
  have t: "dict_get kvs ''type'' (PStr '''') = PStr ''Microsoft.Storage.BlobCreated''"
    using assms by (simp add: dict_get_type_created)
  show ?thesis
    by (simp add: process_cloudevent_http_def cloudevent_fields_dict then_run_def
        emit_def lift_def t split: prod.splits sum.splits)
qed

text \<open>The \<^verbatim>\<open>POST\<close> branch of the HTTP handler, by what \<^verbatim>\<open>get_json\<close> did.\<close>

lemma post_get_json_raises:
  "req_method req = ''POST'' \<Longrightarrow> req_get_json req = Inl e \<Longrightarrow>
   blob_created_http_handler accepts req =
     ([Log INFO ''Processing CloudEvent via HTTP trigger'',
       Log ERROR ''Error processing CloudEvent: ''],
      Inr \<lparr>status_code = 500, headers = [], body = None\<rparr>)"
  by (simp add: blob_created_http_handler_def blob_created_http_handler_body_def
      post_cloudevent_def then_run_def lift_def emit_def HttpResponse_no_headers)

lemma post_falsy:
  "req_method req = ''POST'' \<Longrightarrow> req_get_json req = Inr v \<Longrightarrow> \<not> truthy v \<Longrightarrow>
   blob_created_http_handler accepts req =
     ([Log INFO ''Processing CloudEvent via HTTP trigger'',
       Log ERROR ''No JSON data in request''],
      Inr \<lparr>status_code = 400, headers = [], body = None\<rparr>)"
  by (simp add: blob_created_http_handler_def blob_created_http_handler_body_def
      post_cloudevent_def then_run_def lift_def emit_def HttpResponse_no_headers)

lemma post_truthy:
  "req_method req = ''POST'' \<Longrightarrow> req_get_json req = Inr v \<Longrightarrow> truthy v \<Longrightarrow>
   blob_created_http_handler accepts req =
     (case snd (process_cloudevent_http v) of
        Inl e \<Rightarrow>
          (Log INFO ''Processing CloudEvent via HTTP trigger''
             # fst (process_cloudevent_http v) @ [Log ERROR ''Error processing CloudEvent: ''],
           Inr \<lparr>status_code = 500, headers = [], body = None\<rparr>)
      | Inr u \<Rightarrow>
          (Log INFO ''Processing CloudEvent via HTTP trigger''
             # fst (process_cloudevent_http v),
           Inr \<lparr>status_code = 200, headers = [], body = None\<rparr>))"
  by (simp add: blob_created_http_handler_def blob_created_http_handler_body_def
      post_cloudevent_def then_run_def lift_def emit_def HttpResponse_no_headers
      split: prod.splits sum.splits)

section \<open>The Event Grid handler\<close>

text \<open>
  Claim C9. Whatever stage of the Event Grid handler raises, the handler raises the same
  exception to its caller: the one \<^verbatim>\<open>event.get_json()\<close> raised, the one a read of the
  event's attributes raised, or the one the dispatch raised on a payload that passed the
  truth test (the extractor never raises). It logs one error record on the way, and it
  returns normally only when no stage raised.
\<close>

theorem handler_reraises:
  "(ev_get_json event = Inl e \<longrightarrow> snd (blob_created_handler event) = Inl e)
   \<and> (\<forall>d. ev_get_json event = Inr d \<and> grid_event_info event = Inl e
        \<longrightarrow> snd (blob_created_handler event) = Inl e)
   \<and> (\<forall>d info. ev_get_json event = Inr d \<and> grid_event_info event = Inr info \<and> truthy d
          \<and> snd (process_blob_created (snd (extract_blob_info d)) info) = Inl e
        \<longrightarrow> snd (blob_created_handler event) = Inl e)
   \<and> (snd (blob_created_handler_body event) = Inl e \<longrightarrow>
        blob_created_handler event =
          (fst (blob_created_handler_body event) @ [Log ERROR ''Error processing CloudEvent: ''],
           Inl e))
   \<and> (snd (blob_created_handler event) = Inr () \<longrightarrow>
        snd (blob_created_handler_body event) = Inr ())"
proof -
  have wrap: "snd (blob_created_handler event) = snd (blob_created_handler_body event)"
    by (simp add: blob_created_handler_def split: prod.splits sum.splits)
  have "ev_get_json event = Inl e \<longrightarrow> snd (blob_created_handler event) = Inl e"
    by (simp add: wrap handler_body_get_json_raises)
  moreover have "\<forall>d. ev_get_json event = Inr d \<and> grid_event_info event = Inl e
        \<longrightarrow> snd (blob_created_handler event) = Inl e"
    by (simp add: wrap handler_body_attribute_raises)
  moreover have "\<forall>d info. ev_get_json event = Inr d \<and> grid_event_info event = Inr info
          \<and> truthy d
          \<and> snd (process_blob_created (snd (extract_blob_info d)) info) = Inl e
        \<longrightarrow> snd (blob_created_handler event) = Inl e"
    by (simp add: wrap handler_body_truthy)
  moreover have "snd (blob_created_handler_body event) = Inl e \<longrightarrow>
        blob_created_handler event =
          (fst (blob_created_handler_body event) @ [Log ERROR ''Error processing CloudEvent: ''],
           Inl e)"
    by (simp add: blob_created_handler_def split: prod.splits sum.splits)
  moreover have "snd (blob_created_handler event) = Inr () \<longrightarrow>
        snd (blob_created_handler_body event) = Inr ()"
    by (simp add: wrap)
  ultimately show ?thesis by blast
qed

theorem handler_reraises_witness:
  "snd (blob_created_handler
         (EventGridEvent (PStr ''1'') (PStr ''topic'') (PStr ''blob'')
            (PStr ''Microsoft.Storage.BlobCreated'') PNone (PStr ''1.0'')
            (Inl (OtherException ''payload unavailable''))))
     = Inl (OtherException ''payload unavailable'')
   \<and> snd (blob_created_handler
         (EventGridEvent (PStr ''1'') (PStr ''topic'') (PStr ''blob'')
            (PStr ''Microsoft.Storage.BlobCreated'') PNone (PStr ''1.0'')
            (Inr (PDict [(''contentType'', PStr ''image/png'')]))))
     = Inl AttributeError
   \<and> snd (blob_created_handler
         \<lparr>ev_attrs = [(''id'', PStr ''1''), (''source'', PStr ''topic''),
                      (''subject'', PStr ''blob''),
                      (''event_type'', PStr ''Microsoft.Storage.BlobCreated''),
                      (''event_time'', PNone)],
          ev_get_json = Inr (PDict [(''contentType'', PInt 5)])\<rparr>)
     = Inl AttributeError"
proof -
  let ?a = "EventGridEvent (PStr ''1'') (PStr ''topic'') (PStr ''blob'')
            (PStr ''Microsoft.Storage.BlobCreated'') PNone (PStr ''1.0'')
            (Inl (OtherException ''payload unavailable''))"
  let ?b = "EventGridEvent (PStr ''1'') (PStr ''topic'') (PStr ''blob'')
            (PStr ''Microsoft.Storage.BlobCreated'') PNone (PStr ''1.0'')
            (Inr (PDict [(''contentType'', PStr ''image/png'')]))"
  let ?c = "\<lparr>ev_attrs = [(''id'', PStr ''1''), (''source'', PStr ''topic''),
                      (''subject'', PStr ''blob''),
                      (''event_type'', PStr ''Microsoft.Storage.BlobCreated''),
                      (''event_time'', PNone)],
          ev_get_json = Inr (PDict [(''contentType'', PInt 5)])\<rparr>"
  let ?info = "[(''id'', PStr ''1''), (''source'', PStr ''topic''),
               (''subject'', PStr ''blob''),
               (''event_type'', PStr ''Microsoft.Storage.BlobCreated''),
               (''event_time'', PNone), (''data_version'', PStr ''unknown'')]"
  have info: "grid_event_info ?c = Inr ?info"
    by (simp add: grid_event_info_def getattr_def getattr_default_def and_then_def)
  have raised: "snd (process_blob_created
                  (snd (extract_blob_info (PDict [(''contentType'', PInt 5)]))) ?info)
                = Inl AttributeError"
    by (simp add: extract_blob_info_def extract_blob_info_body_def blob_fields_dict
        and_then_def dict_item_def dict_get_def process_blob_created_def then_run_def
        emit_def lift_def)
  have "snd (blob_created_handler ?a) = Inl (OtherException ''payload unavailable'')"
    using handler_reraises [of ?a "OtherException ''payload unavailable''"]
    by (simp add: EventGridEvent_def)
  moreover have "snd (blob_created_handler ?b) = Inl AttributeError"
    using handler_reraises [of ?b AttributeError] grid_event_info_EventGridEvent
    by (simp add: EventGridEvent_def)
  moreover have "snd (blob_created_handler ?c) = Inl AttributeError"
    using handler_reraises [of ?c AttributeError] info raised by simp
  ultimately show ?thesis by simp
qed

text \<open>
  Claim C10, on the code. An event of the platform's class whose payload fails the truth
  test (here \<^verbatim>\<open>None\<close> and the empty object): the handler raises \<^verbatim>\<open>AttributeError\<close> at the
  read of \<^verbatim>\<open>event.source\<close>, before the truth test, logs an error and no warning, and does
  not return normally. It enters neither the extractor nor the dispatch.
\<close>

theorem falsy_payload_event_raises:
  "blob_created_handler
     (EventGridEvent (PStr ''1'') (PStr ''topic'') (PStr ''blob'')
        (PStr ''Microsoft.Storage.BlobCreated'') PNone (PStr ''1.0'') (Inr PNone))
   = ([Log INFO ''Raw event received: '', Log ERROR ''Error processing CloudEvent: ''],
      Inl AttributeError)
   \<and> blob_created_handler
     (EventGridEvent (PStr ''1'') (PStr ''topic'') (PStr ''blob'')
        (PStr ''Microsoft.Storage.BlobCreated'') PNone (PStr ''1.0'') (Inr (PDict [])))
   = ([Log INFO ''Raw event received: '', Log ERROR ''Error processing CloudEvent: ''],
      Inl AttributeError)"
  by (simp add: handler_on_EventGridEvent)

text \<open>
  What the falsy branch does when it is reached, that is on an object that has every
  attribute the handler reads: a normal return, nothing entered, one warning.
\<close>

lemma handler_without_data_when_reached:
  assumes "ev_get_json event = Inr d" and "grid_event_info event = Inr info"
    and "\<not> truthy d"
  shows "blob_created_handler event =
           ([Log INFO ''Raw event received: '', Log INFO ''CloudEvent metadata: '',
             Log WARNING ''No event data found in CloudEvent''], Inr ())"
  by (simp add: blob_created_handler_def handler_body_falsy [OF assms])

section \<open>The delivery of an event over HTTP\<close>

text \<open>
  Claim C3, on the code. A POST request with an empty body, on which \<^verbatim>\<open>req.get_json()\<close>
  raises \<^verbatim>\<open>ValueError\<close>: the raise happens inside the \<^verbatim>\<open>try\<close> whose \<^verbatim>\<open>except\<close> answers
  500, so the branch that logs "No JSON data in request" and answers 400 is not reached.
\<close>

theorem post_empty_body_answers_500:
  "blob_created_http_handler accepts
     \<lparr>req_method = ''POST'', req_headers = [], req_get_json = Inl ValueError\<rparr>
   = ([Log INFO ''Processing CloudEvent via HTTP trigger'',
       Log ERROR ''Error processing CloudEvent: ''],
      Inr \<lparr>status_code = 500, headers = [], body = None\<rparr>)"
  by (simp add: post_get_json_raises)

text \<open>The status of every POST request, by what the decoding and the processing did.\<close>

lemma post_status:
  assumes "req_method req = ''POST''"
  shows "(\<forall>e. req_get_json req = Inl e \<longrightarrow>
            snd (blob_created_http_handler accepts req)
              = Inr \<lparr>status_code = 500, headers = [], body = None\<rparr>)
       \<and> (\<forall>v. req_get_json req = Inr v \<and> \<not> truthy v \<longrightarrow>
            snd (blob_created_http_handler accepts req)
              = Inr \<lparr>status_code = 400, headers = [], body = None\<rparr>)
       \<and> (\<forall>v e. req_get_json req = Inr v \<and> truthy v
              \<and> snd (process_cloudevent_http v) = Inl e \<longrightarrow>
            snd (blob_created_http_handler accepts req)
              = Inr \<lparr>status_code = 500, headers = [], body = None\<rparr>)
       \<and> (\<forall>v. req_get_json req = Inr v \<and> truthy v
              \<and> snd (process_cloudevent_http v) = Inr () \<longrightarrow>
            snd (blob_created_http_handler accepts req)
              = Inr \<lparr>status_code = 200, headers = [], body = None\<rparr>)"
proof -
  have "\<forall>e. req_get_json req = Inl e \<longrightarrow>
            snd (blob_created_http_handler accepts req)
              = Inr \<lparr>status_code = 500, headers = [], body = None\<rparr>"
    by (simp add: post_get_json_raises [OF assms])
  moreover have "\<forall>v. req_get_json req = Inr v \<and> \<not> truthy v \<longrightarrow>
            snd (blob_created_http_handler accepts req)
              = Inr \<lparr>status_code = 400, headers = [], body = None\<rparr>"
    by (simp add: post_falsy [OF assms])
  moreover have "\<forall>v e. req_get_json req = Inr v \<and> truthy v
              \<and> snd (process_cloudevent_http v) = Inl e \<longrightarrow>
            snd (blob_created_http_handler accepts req)
              = Inr \<lparr>status_code = 500, headers = [], body = None\<rparr>"
    by (simp add: post_truthy [OF assms])
  moreover have "\<forall>v. req_get_json req = Inr v \<and> truthy v
              \<and> snd (process_cloudevent_http v) = Inr () \<longrightarrow>
            snd (blob_created_http_handler accepts req)
              = Inr \<lparr>status_code = 200, headers = [], body = None\<rparr>"
    by (simp add: post_truthy [OF assms])
  ultimately show ?thesis by blast
qed

section \<open>When the pipeline runs\<close>

text \<open>
  Claim C4, on the code. An event of the platform's class, of the type
  "Microsoft.Storage.BlobCreated" and with a payload: the handler raises
  \<^verbatim>\<open>AttributeError\<close> at the read of \<^verbatim>\<open>event.source\<close> and enters neither the extractor nor
  the dispatch.
\<close>

theorem created_event_pipeline_not_run:
  "blob_created_handler
     (EventGridEvent (PStr ''1'') (PStr ''topic'') (PStr ''blob'')
        (PStr ''Microsoft.Storage.BlobCreated'') PNone (PStr ''1.0'')
        (Inr (PDict [(''url'', PStr ''https://acct.blob.core.windows.net/c/f.png''),
                     (''contentType'', PStr ''image/png'')])))
   = ([Log INFO ''Raw event received: '', Log ERROR ''Error processing CloudEvent: ''],
      Inl AttributeError)
   \<and> entered (fst (blob_created_handler
     (EventGridEvent (PStr ''1'') (PStr ''topic'') (PStr ''blob'')
        (PStr ''Microsoft.Storage.BlobCreated'') PNone (PStr ''1.0'')
        (Inr (PDict [(''url'', PStr ''https://acct.blob.core.windows.net/c/f.png''),
                     (''contentType'', PStr ''image/png'')]))))) = []"
  by (simp add: handler_on_EventGridEvent)

text \<open>
  On the HTTP path the type decides: for every envelope that is a non-empty JSON object,
  the extractor and the dispatch each run once when the value under \<^verbatim>\<open>type\<close> is the string
  "Microsoft.Storage.BlobCreated", character for character; for every other envelope
  neither runs, one warning is logged and the answer is 200.
\<close>

lemma http_pipeline_runs:
  assumes "req_method req = ''POST''" and "req_get_json req = Inr (PDict kvs)"
    and "kvs \<noteq> []"
  shows "if map_of kvs ''type'' = Some (PStr ''Microsoft.Storage.BlobCreated'')
       then count_list (entered (fst (blob_created_http_handler accepts req)))
              ''extract_blob_info'' = 1
          \<and> count_list (entered (fst (blob_created_http_handler accepts req)))
              ''process_blob_created'' = 1
       else entered (fst (blob_created_http_handler accepts req))
              = [''process_cloudevent_http'']
          \<and> logged WARNING (fst (blob_created_http_handler accepts req))
              = [''Unknown event type: '']
          \<and> snd (blob_created_http_handler accepts req)
              = Inr \<lparr>status_code = 200, headers = [], body = None\<rparr>"
proof (cases "map_of kvs ''type'' = Some (PStr ''Microsoft.Storage.BlobCreated'')")
  case True
  have "truthy (PDict kvs)" using assms(3) by simp
  then show ?thesis
    using True count_entered_process_blob_created
      [of "snd (extract_blob_info (dict_get kvs ''data'' (PDict [])))"
          "cloudevent_info (projr (cloudevent_fields (PDict kvs)))"]
    by (simp add: post_truthy [OF assms(1,2)] process_cloudevent_http_created [OF True]
        entered_append entered_extract_blob_info split: sum.splits)
next
  case False
  have "truthy (PDict kvs)" using assms(3) by simp
  then show ?thesis
    using False
    by (simp add: post_truthy [OF assms(1,2)] process_cloudevent_http_other [OF False])
qed

text \<open>
  On the Event Grid path the type is not looked at: when the handler gets as far as the
  truth test, the extractor and the dispatch each run once on a payload that passes it.
\<close>

lemma push_pipeline_when_reached:
  assumes "ev_get_json event = Inr d" and "grid_event_info event = Inr info"
    and "truthy d"
  shows "count_list (entered (fst (blob_created_handler event))) ''extract_blob_info'' = 1
       \<and> count_list (entered (fst (blob_created_handler event))) ''process_blob_created'' = 1"
  using count_entered_process_blob_created [of "snd (extract_blob_info d)" info]
  by (simp add: blob_created_handler_def handler_body_truthy [OF assms]
      entered_append entered_extract_blob_info split: sum.splits)

text \<open>The two subscripts the extractor takes of the pieces of the url.\<close>

lemma subscript_last: "xs \<noteq> [] \<Longrightarrow> subscript xs (- 1) = Inr (last xs)"
proof -
  assume ne: "xs \<noteq> []"
  then have pos: "Suc 0 \<le> length xs"
    by (simp add: Suc_le_eq)
  then have "nat (int (length xs) + - 1) = length xs - 1" by arith
  with ne pos show ?thesis
    by (simp add: subscript_def last_conv_nth)
qed

lemma subscript_last_but_one:
  "subscript xs (- 2) =
     (if 2 \<le> length xs then Inr (xs ! (length xs - 2)) else Inl IndexError)"
proof (cases "2 \<le> length xs")
  case True
  then have "nat (int (length xs) + - 2) = length xs - 2" by arith
  with True show ?thesis
    by (simp add: subscript_def)
next
  case False
  then show ?thesis
    by (simp add: subscript_def)
qed

lemma split_two_pieces: "2 \<le> length (split sep s) \<longleftrightarrow> sep \<in> set s"
proof -
  have "count_list s sep = 0 \<longleftrightarrow> sep \<notin> set s"
    by (rule count_list_0_iff)
  then show ?thesis
    by (simp add: length_split) arith
qed

text \<open>
  The try body of the extractor on a dictionary, by the value \<^verbatim>\<open>url\<close> holds: falsy, a
  string with a slash, a string without one, or a truthy value that is no string.
\<close>

lemma extract_blob_info_body_falsy:
  "\<not> truthy (dict_get kvs ''url'' (PStr '''')) \<Longrightarrow>
   extract_blob_info_body (PDict kvs) = blob_fields (PDict kvs)"
  by (simp add: extract_blob_info_body_def blob_fields_dict and_then_Inr dict_item_def)

lemma extract_blob_info_body_slash:
  assumes "dict_get kvs ''url'' (PStr '''') = PStr s" and "CHR ''/'' \<in> set s"
  shows "extract_blob_info_body (PDict kvs) =
     Inr (dict_set
            (dict_set (projr (blob_fields (PDict kvs))) ''blob_name''
               (PStr (last (split CHR ''/'' s))))
            ''container_name''
            (PStr (split CHR ''/'' s ! (length (split CHR ''/'' s) - 2))))"
proof -
  have s: "s \<noteq> []" using assms(2) by auto
  have two: "2 \<le> length (split CHR ''/'' s)"
    using assms(2) by (simp add: split_two_pieces)
  show ?thesis
    using s two
    by (simp add: extract_blob_info_body_def blob_fields_dict and_then_Inr dict_item_def
        assms(1) subscript_last split_not_Nil subscript_last_but_one Let_def)
qed

lemma extract_blob_info_body_no_slash:
  assumes "dict_get kvs ''url'' (PStr '''') = PStr s" and "s \<noteq> []"
    and "CHR ''/'' \<notin> set s"
  shows "extract_blob_info_body (PDict kvs) = Inl IndexError"
  using assms
  by (simp add: extract_blob_info_body_def blob_fields_dict and_then_Inr and_then_Inl
      dict_item_def split_no_sep subscript_def Let_def)

lemma extract_blob_info_body_not_str:
  assumes "truthy (dict_get kvs ''url'' (PStr ''''))"
    and "\<And>s. dict_get kvs ''url'' (PStr '''') \<noteq> PStr s"
  shows "extract_blob_info_body (PDict kvs) = Inl AttributeError"
  using assms
  by (cases "dict_get kvs ''url'' (PStr '''')")
     (auto simp add: extract_blob_info_body_def blob_fields_dict and_then_Inr and_then_Inl
        dict_item_def)

text \<open>On a dictionary the extractor answers the empty one exactly when the url fails it.\<close>

lemma extract_blob_info_empty_iff:
  "snd (extract_blob_info (PDict kvs)) = [] \<longleftrightarrow>
     truthy (dict_get kvs ''url'' (PStr ''''))
     \<and> (\<forall>s. dict_get kvs ''url'' (PStr '''') = PStr s \<longrightarrow> CHR ''/'' \<notin> set s)"
proof (cases "truthy (dict_get kvs ''url'' (PStr ''''))")
  case False
  then show ?thesis
    by (simp add: extract_blob_info_def extract_blob_info_body_falsy blob_fields_dict)
next
  case True
  show ?thesis
  proof (cases "\<exists>s. dict_get kvs ''url'' (PStr '''') = PStr s")
    case False
    then have "\<And>s. dict_get kvs ''url'' (PStr '''') \<noteq> PStr s" by blast
    from extract_blob_info_body_not_str [OF True this] True False show ?thesis
      by (simp add: extract_blob_info_def)
  next
    case str: True
    then obtain s where s: "dict_get kvs ''url'' (PStr '''') = PStr s" ..
    with True have ne: "s \<noteq> []" by simp
    show ?thesis
    proof (cases "CHR ''/'' \<in> set s")
      case True
      from extract_blob_info_body_slash [OF s True] True s ne show ?thesis
        by (simp add: extract_blob_info_def dict_set_not_Nil)
    next
      case False
      from extract_blob_info_body_no_slash [OF s ne False] False s ne show ?thesis
        by (simp add: extract_blob_info_def)
    qed
  qed
qed

lemma content_length_kept:
  assumes "snd (extract_blob_info (PDict kvs)) \<noteq> []"
  shows "map_of (snd (extract_blob_info (PDict kvs))) ''content_length''
           = Some (dict_get kvs ''contentLength'' (PInt 0))"
proof (cases "truthy (dict_get kvs ''url'' (PStr ''''))")
  case False
  then show ?thesis
    by (simp add: extract_blob_info_def extract_blob_info_body_falsy blob_fields_dict)
next
  case True
  with assms obtain s where s: "dict_get kvs ''url'' (PStr '''') = PStr s"
    and slash: "CHR ''/'' \<in> set s"
    by (auto simp: extract_blob_info_empty_iff)
  show ?thesis
    by (simp add: extract_blob_info_def extract_blob_info_body_slash [OF s slash]
        map_of_dict_set blob_fields_dict)
qed

section \<open>The derived names\<close>

text \<open>The url of a blob in a container gives both names.\<close>

lemma extract_blob_info_names:
  "map_of (snd (extract_blob_info
      (PDict [(''url'', PStr ''https://acct.blob.core.windows.net/mycontainer/myfile.png'')])))
     ''blob_name'' = Some (PStr ''myfile.png'')
   \<and> map_of (snd (extract_blob_info
      (PDict [(''url'', PStr ''https://acct.blob.core.windows.net/mycontainer/myfile.png'')])))
     ''container_name'' = Some (PStr ''mycontainer'')"
  by (simp add: extract_blob_info_def extract_blob_info_body_def blob_fields_dict
      and_then_def dict_item_def dict_get_def subscript_def)

text \<open>
  Claim C5, as stated, at a payload whose url is one segment ("abc", no slash) and whose
  content type is "image/png": the extractor answers the empty dictionary, so the content
  type is gone and no derived field holds an empty string.
\<close>

theorem extract_one_segment_url_counterexample:
  "extract_blob_info (PDict [(''url'', PStr ''abc''), (''contentType'', PStr ''image/png'')])
     = ([Enter ''extract_blob_info'', Log ERROR ''Error extracting blob info: ''], [])
   \<and> map_of (snd (extract_blob_info
        (PDict [(''url'', PStr ''abc''), (''contentType'', PStr ''image/png'')])))
       ''content_type'' = None
   \<and> map_of (snd (extract_blob_info
        (PDict [(''url'', PStr ''abc''), (''contentType'', PStr ''image/png'')])))
       ''blob_name'' = None"
  by (simp add: extract_blob_info_def extract_blob_info_body_def blob_fields_dict
      and_then_def dict_item_def dict_get_def subscript_def)

text \<open>
  Claim C5, amended. For every payload that is a JSON object: when its url is absent or
  the empty string, the extractor returns the nine extracted fields as they are and adds
  no entry for the blob name or the container name (the dispatch reads the missing blob
  name with the default, the empty string); when its url is a non-empty string without a
  slash, the extractor logs an error and returns the empty dictionary, which holds no
  field at all.
\<close>

theorem extract_blob_info_without_url:
  "(map_of kvs ''url'' = None \<or> map_of kvs ''url'' = Some (PStr '''') \<longrightarrow>
      extract_blob_info (PDict kvs) =
        ([Enter ''extract_blob_info''],
         [(''url'', PStr ''''),
          (''api'', dict_get kvs ''api'' (PStr '''')),
          (''client_request_id'', dict_get kvs ''clientRequestId'' (PStr '''')),
          (''request_id'', dict_get kvs ''requestId'' (PStr '''')),
          (''etag'', dict_get kvs ''eTag'' (PStr '''')),
          (''content_type'', dict_get kvs ''contentType'' (PStr '''')),
          (''content_length'', dict_get kvs ''contentLength'' (PInt 0)),
          (''blob_type'', dict_get kvs ''blobType'' (PStr '''')),
          (''sequencer'', dict_get kvs ''sequencer'' (PStr ''''))])
      \<and> map_of (snd (extract_blob_info (PDict kvs))) ''blob_name'' = None
      \<and> map_of (snd (extract_blob_info (PDict kvs))) ''container_name'' = None
      \<and> dict_get (snd (extract_blob_info (PDict kvs))) ''blob_name'' (PStr '''') = PStr '''')
   \<and> (\<forall>s. map_of kvs ''url'' = Some (PStr s) \<and> s \<noteq> '''' \<and> CHR ''/'' \<notin> set s \<longrightarrow>
        extract_blob_info (PDict kvs) =
          ([Enter ''extract_blob_info'', Log ERROR ''Error extracting blob info: ''], []))"
proof -
  have absent: "extract_blob_info (PDict kvs) =
        ([Enter ''extract_blob_info''],
         [(''url'', PStr ''''),
          (''api'', dict_get kvs ''api'' (PStr '''')),
          (''client_request_id'', dict_get kvs ''clientRequestId'' (PStr '''')),
          (''request_id'', dict_get kvs ''requestId'' (PStr '''')),
          (''etag'', dict_get kvs ''eTag'' (PStr '''')),
          (''content_type'', dict_get kvs ''contentType'' (PStr '''')),
          (''content_length'', dict_get kvs ''contentLength'' (PInt 0)),
          (''blob_type'', dict_get kvs ''blobType'' (PStr '''')),
          (''sequencer'', dict_get kvs ''sequencer'' (PStr ''''))])"
    if "map_of kvs ''url'' = None \<or> map_of kvs ''url'' = Some (PStr '''')"
  proof -
    from that have u: "dict_get kvs ''url'' (PStr '''') = PStr ''''"
      by (auto simp: dict_get_def)
    then have "\<not> truthy (dict_get kvs ''url'' (PStr ''''))" by simp
    then show ?thesis
      by (simp add: extract_blob_info_def extract_blob_info_body_falsy blob_fields_dict u)
  qed
  have one: "extract_blob_info (PDict kvs) =
          ([Enter ''extract_blob_info'', Log ERROR ''Error extracting blob info: ''], [])"
    if "map_of kvs ''url'' = Some (PStr s)" "s \<noteq> ''''" "CHR ''/'' \<notin> set s" for s
  proof -
    from that(1) have u: "dict_get kvs ''url'' (PStr '''') = PStr s"
      by (simp add: dict_get_def)
    show ?thesis
      by (simp add: extract_blob_info_def
          extract_blob_info_body_no_slash [OF u that(2) that(3)])
  qed
  show ?thesis
    using absent one by (simp add: dict_get_def)
qed

theorem extract_blob_info_without_url_witness:
  "extract_blob_info (PDict [(''contentType'', PStr ''image/png'')]) =
     ([Enter ''extract_blob_info''],
      [(''url'', PStr ''''), (''api'', PStr ''''), (''client_request_id'', PStr ''''),
       (''request_id'', PStr ''''), (''etag'', PStr ''''),
       (''content_type'', PStr ''image/png''), (''content_length'', PInt 0),
       (''blob_type'', PStr ''''), (''sequencer'', PStr '''')])
   \<and> extract_blob_info (PDict [(''url'', PStr ''abc'')]) =
       ([Enter ''extract_blob_info'', Log ERROR ''Error extracting blob info: ''], [])"
  using
    extract_blob_info_without_url [of "[(''contentType'', PStr ''image/png'')]"]
    extract_blob_info_without_url [of "[(''url'', PStr ''abc'')]"]
  by (simp add: dict_get_def)

section \<open>The content length\<close>

text \<open>
  Claim C6, as stated, at a payload whose content length is the string "abc", and at one
  whose content length is -5: the extractor hands either value on as it is, in an info
  dictionary that is not empty.
\<close>

theorem content_length_as_given_counterexample:
  "map_of (snd (extract_blob_info (PDict [(''contentLength'', PStr ''abc'')])))
     ''content_length'' = Some (PStr ''abc'')
   \<and> map_of (snd (extract_blob_info (PDict [(''contentLength'', PInt (- 5))])))
     ''content_length'' = Some (PInt (- 5))"
  by (simp add: extract_blob_info_def extract_blob_info_body_def blob_fields_dict
      and_then_def dict_item_def dict_get_def)

text \<open>
  Claim C6, amended. For every payload that is a JSON object, the extractor copies the
  content length without coercing or checking it: unless the url makes the extraction
  fail, the \<^verbatim>\<open>content_length\<close> of the info dictionary is the value under
  \<^verbatim>\<open>contentLength\<close> as it is, of whatever type and sign, and the integer 0 when the key is
  absent. The extractor answers the empty dictionary exactly when the url is truthy and
  not a string with a slash in it, whatever the content length is.
\<close>

theorem extract_blob_info_content_length:
  "(snd (extract_blob_info (PDict kvs)) \<noteq> [] \<longrightarrow>
      map_of (snd (extract_blob_info (PDict kvs))) ''content_length''
        = Some (case map_of kvs ''contentLength'' of None \<Rightarrow> PInt 0 | Some v \<Rightarrow> v))
   \<and> (snd (extract_blob_info (PDict kvs)) = [] \<longleftrightarrow>
        truthy (dict_get kvs ''url'' (PStr ''''))
        \<and> (\<forall>s. dict_get kvs ''url'' (PStr '''') = PStr s \<longrightarrow> CHR ''/'' \<notin> set s))"
  using content_length_kept [of kvs] extract_blob_info_empty_iff [of kvs]
  by (simp add: dict_get_def)

theorem extract_blob_info_content_length_witness:
  "snd (extract_blob_info (PDict [(''contentLength'', PInt 1024)])) \<noteq> []
   \<and> map_of (snd (extract_blob_info (PDict [(''contentLength'', PInt 1024)])))
       ''content_length'' = Some (PInt 1024)
   \<and> map_of (snd (extract_blob_info (PDict [(''api'', PStr ''PutBlob'')])))
       ''content_length'' = Some (PInt 0)"
  using
    extract_blob_info_content_length [of "[(''contentLength'', PInt 1024)]"]
    extract_blob_info_content_length [of "[(''api'', PStr ''PutBlob'')]"]
  by (simp add: dict_get_def)

section \<open>The envelope\<close>

text \<open>
  Claim C7, as stated, at an envelope whose id is the number 5 and whose data is the
  string "x": the fields come out as the number and the string, not as the empty string
  and the empty object.
\<close>

theorem envelope_values_as_given_counterexample:
  "cloudevent_fields (PDict [(''id'', PInt 5), (''data'', PStr ''x'')]) =
     Inr \<lparr>spec_version = PStr ''1.0'', event_type = PStr '''', source = PStr '''',
          event_id = PInt 5, subject = PStr '''', time = PStr '''', data = PStr ''x''\<rparr>"
  by (simp add: cloudevent_fields_dict dict_get_def)

text \<open>
  Claim C7, amended. For every JSON object, reading the envelope fields never fails, and
  each of id, source, type, time and subject is the empty string when its key is absent,
  the spec version is "1.0" when its key is absent, and data is the empty object when
  its key is absent; a key that is present gives its value as it is, of whatever type.
\<close>

theorem cloudevent_fields_defaults:
  "\<exists>ce. cloudevent_fields (PDict kvs) = Inr ce
     \<and> event_id ce = (case map_of kvs ''id'' of None \<Rightarrow> PStr '''' | Some v \<Rightarrow> v)
     \<and> source ce = (case map_of kvs ''source'' of None \<Rightarrow> PStr '''' | Some v \<Rightarrow> v)
     \<and> event_type ce = (case map_of kvs ''type'' of None \<Rightarrow> PStr '''' | Some v \<Rightarrow> v)
     \<and> time ce = (case map_of kvs ''time'' of None \<Rightarrow> PStr '''' | Some v \<Rightarrow> v)
     \<and> subject ce = (case map_of kvs ''subject'' of None \<Rightarrow> PStr '''' | Some v \<Rightarrow> v)
     \<and> spec_version ce
         = (case map_of kvs ''specversion'' of None \<Rightarrow> PStr ''1.0'' | Some v \<Rightarrow> v)
     \<and> data ce = (case map_of kvs ''data'' of None \<Rightarrow> PDict [] | Some v \<Rightarrow> v)"
  by (simp add: cloudevent_fields_dict dict_get_def)

theorem cloudevent_fields_defaults_witness:
  "\<exists>ce. cloudevent_fields (PDict [(''type'', PStr ''Microsoft.Storage.BlobCreated'')])
          = Inr ce
     \<and> event_id ce = PStr '''' \<and> source ce = PStr ''''
     \<and> event_type ce = PStr ''Microsoft.Storage.BlobCreated''
     \<and> time ce = PStr '''' \<and> subject ce = PStr ''''
     \<and> spec_version ce = PStr ''1.0'' \<and> data ce = PDict []"
  using cloudevent_fields_defaults [of "[(''type'', PStr ''Microsoft.Storage.BlobCreated'')]"]
  by simp

end
